theory Spec2Isabelle
  imports Main "HOL-Library.Sublist"
begin

section \<open>JavaScript values used by the program\<close>

text \<open>
  A thrown value is an \<open>Error\<close> instance carrying its message, a \<open>TypeError\<close> raised by
  the engine when a property of \<open>undefined\<close> is read or \<open>undefined\<close> is iterated (also an
  \<open>Error\<close> instance, with the engine's message), or any other thrown value. A rejected
  promise is a thrown value. A string is the list of the bytes of its UTF-8 encoding;
  \<open>null\<close> and \<open>undefined\<close> are \<open>None\<close>.
\<close>

datatype thrown = Error string | TypeError string | NonError

fun instanceofError :: "thrown \<Rightarrow> bool" where
  "instanceofError (Error m) = True"
| "instanceofError (TypeError m) = True"
| "instanceofError NonError = False"

definition cannotRead :: "string \<Rightarrow> string" where
  \<comment> \<open>the message of V8 when the named property of undefined is read\<close>
  "cannotRead property =
     ''Cannot read properties of undefined (reading '' @ [CHR 0x27] @ property @ [CHR 0x27] @ '')''"

definition notIterable :: string where
  \<comment> \<open>the message of V8 when \<open>for ... of\<close> is given undefined\<close>
  "notIterable = ''undefined is not iterable (cannot read property Symbol(Symbol.iterator))''"

fun message :: "thrown \<Rightarrow> string" where
  "message (Error m) = m"
| "message (TypeError m) = m"
| "message NonError = []"

definition truthy :: "string option \<Rightarrow> bool" where
  \<comment> \<open>a string-or-null value in a condition: null, undefined and the empty string are falsy\<close>
  "truthy v = (case v of None \<Rightarrow> False | Some s \<Rightarrow> s \<noteq> [])"

fun split :: "char \<Rightarrow> string \<Rightarrow> string list" where
  \<comment> \<open>String.prototype.split with a one-character separator\<close>
  "split sep [] = [[]]"
| "split sep (c # cs) =
     (if c = sep then [] # split sep cs
      else (case split sep cs of r # rs \<Rightarrow> (c # r) # rs | [] \<Rightarrow> [[c]]))"

definition template :: "string option \<Rightarrow> string" where
  \<comment> \<open>a string-or-null value interpolated into a template literal\<close>
  "template v = (case v of None \<Rightarrow> ''null'' | Some s \<Rightarrow> s)"

definition index :: "'a list \<Rightarrow> nat \<Rightarrow> 'a option" where
  \<comment> \<open>array indexing: out of range is undefined\<close>
  "index xs i = (if i < length xs then Some (xs ! i) else None)"

definition lowerChar :: "char \<Rightarrow> char" where
  "lowerChar c =
     (case map_of (zip ''ABCDEFGHIJKLMNOPQRSTUVWXYZ'' ''abcdefghijklmnopqrstuvwxyz'') c of
        Some d \<Rightarrow> d | None \<Rightarrow> c)"

definition toLowerCase :: "string \<Rightarrow> string" where
  "toLowerCase s = map lowerChar s"

section \<open>services/geminiService.ts\<close>

subsection \<open>Files, requests and responses\<close>

text \<open>
  A \<open>File\<close> has its MIME type and what \<open>FileReader.readAsDataURL\<close> delivers for it:
  the data URL (\<open>onload\<close>) or an error (\<open>onerror\<close>).
\<close>

record File =
  fileType :: string
  readAsDataURL :: "thrown + string"

datatype Modality = IMAGE | TEXT

datatype RequestPart = InlineData "string option" string | Text string

record Request =
  model :: string
  contents :: "RequestPart list"
  responseModalities :: "Modality list"

record Blob =
  data :: string
  mimeType :: string

record Part =
  inlineData :: "Blob option"
  partText :: "string option"

record Content =
  parts :: "Part list option"

record Candidate =
  content :: "Content option"

record GenerateContentResponse =
  candidates :: "Candidate list option"

type_synonym api = "Request \<Rightarrow> thrown + GenerateContentResponse"

record ImageResult =
  imageUrl :: "string option"

record EditResult = ImageResult +
  resultText :: "string option"

text \<open>
  An operation returns the requests it sent to the model, in order, and its outcome:
  the thrown value (\<open>Inl\<close>) or the returned object (\<open>Inr\<close>).
\<close>

type_synonym 'a outcome = "Request list \<times> (thrown + 'a)"

definition fileToBase64 :: "File \<Rightarrow> thrown + string option" where
  "fileToBase64 f =
     (case readAsDataURL f of
        Inl e \<Rightarrow> Inl e
      | Inr result \<Rightarrow> Inr (index (split CHR '','' result) 1))"

definition dataUrl :: "Blob \<Rightarrow> string" where
  "dataUrl b = ''data:'' @ mimeType b @ '';base64,'' @ data b"

subsection \<open>createBovaliChat\<close>

record Chat =
  chatId :: nat
  chatModel :: string
  systemInstruction :: string

definition bovaliSystemInstruction :: string where
  "bovaliSystemInstruction = ''\<newline>    You are a sophisticated and knowledgeable AI assistant for Bovali, a luxury brand specializing in high-end flooring and cladding. \<newline>    Your expertise lies in contemporary architecture and Italian design. Your purpose is to assist clients by answering questions about \<newline>    Bovali's products, explaining the AI design generation process, and offering expert design advice. When the user provides an instruction to edit an image, you fulfill the request and provide a brief confirmation. Maintain a professional, \<newline>    elegant, and helpful tone at all times. If a question is outside the scope of interior design, flooring, cladding, or Bovali, \<newline>    politely state that your expertise is focused on these areas.\<newline>    ''"

definition createBovaliChat :: "nat \<Rightarrow> Chat" where
  \<comment> \<open>the argument numbers the session objects handed out by \<open>ai.chats.create\<close>\<close>
  "createBovaliChat n =
     \<lparr>chatId = n, chatModel = ''gemini-2.5-flash'', systemInstruction = bovaliSystemInstruction\<rparr>"

subsection \<open>editImageWithPrompt\<close>

definition editFullPrompt :: "string \<Rightarrow> string" where
  "editFullPrompt prompt = ''\<newline>            As an expert AI image editor, edit the provided image based on the following instruction, ensuring the result is photorealistic and maintains the original image's context.\<newline>            Instruction: \"'' @ prompt @ ''\"\<newline>        ''"

fun editParts :: "Part list \<Rightarrow> string option \<times> string option \<Rightarrow> string option \<times> string option" where
  \<comment> \<open>the loop over the parts, on the variables \<open>imageUrl\<close> and \<open>text\<close>; it has no break\<close>
  "editParts [] acc = acc"
| "editParts (p # ps) (img, txt) =
     (case inlineData p of
        Some b \<Rightarrow> editParts ps (Some (dataUrl b), txt)
      | None \<Rightarrow>
          if truthy (partText p) then editParts ps (img, partText p)
          else editParts ps (img, txt))"

definition editScan :: "GenerateContentResponse \<Rightarrow> thrown + string option \<times> string option" where
  \<comment> \<open>lines 68-80: \<open>candidates[0].content.parts\<close> is read without optional chaining\<close>
  "editScan response =
     (case candidates response of
        None \<Rightarrow> Inr (None, None)
      | Some [] \<Rightarrow> Inr (None, None)
      | Some (c # cs) \<Rightarrow>
          (case content c of
             None \<Rightarrow> Inl (TypeError (cannotRead ''parts''))
           | Some ct \<Rightarrow>
               (case parts ct of
                  None \<Rightarrow> Inl (TypeError notIterable)
                | Some ps \<Rightarrow> Inr (editParts ps (None, None)))))"

definition editUnpack :: "GenerateContentResponse \<Rightarrow> thrown + EditResult" where
  "editUnpack response =
     (case editScan response of
        Inl e \<Rightarrow> Inl e
      | Inr (img, txt) \<Rightarrow>
          if \<not> truthy img then
            (if truthy txt then
               Inl (Error (''The AI responded but did not return an image: \"'' @ template txt @ ''\"''))
             else Inl (Error ''The AI did not return an image for your edit request.''))
          else Inr \<lparr>imageUrl = img, resultText = txt\<rparr>)"

definition editCatch :: "thrown + EditResult \<Rightarrow> thrown + EditResult" where
  "editCatch r =
     (case r of
        Inl error \<Rightarrow>
          if instanceofError error then Inl error
          else Inl (Error ''An unknown error occurred while editing the image.'')
      | Inr v \<Rightarrow> Inr v)"

definition editRequest :: "string option \<Rightarrow> string \<Rightarrow> string \<Rightarrow> Request" where
  "editRequest base64Image mime prompt =
     \<lparr>model = ''gemini-2.5-flash-image-preview'',
      contents = [InlineData base64Image mime, Text (editFullPrompt prompt)],
      responseModalities = [IMAGE, TEXT]\<rparr>"

definition editImageWithPrompt ::
    "api \<Rightarrow> string option \<Rightarrow> string \<Rightarrow> string \<Rightarrow> EditResult outcome" where
  "editImageWithPrompt api base64Image mime prompt =
     (let req = editRequest base64Image mime prompt
      in ([req],
          editCatch (case api req of Inl e \<Rightarrow> Inl e | Inr response \<Rightarrow> editUnpack response)))"

subsection \<open>generateSurfaceDesign\<close>

fun imageParts :: "File list \<Rightarrow> thrown + RequestPart list" where
  \<comment> \<open>\<open>Promise.all\<close> over the images: any failed read rejects the whole\<close>
  "imageParts [] = Inr []"
| "imageParts (f # fs) =
     (case fileToBase64 f of
        Inl e \<Rightarrow> Inl e
      | Inr base64 \<Rightarrow>
          (case imageParts fs of
             Inl e \<Rightarrow> Inl e
           | Inr ps \<Rightarrow> Inr (InlineData base64 (fileType f) # ps)))"

fun firstImage :: "Part list \<Rightarrow> string option" where
  \<comment> \<open>the loop over the parts, which breaks at the first part with inline data\<close>
  "firstImage [] = None"
| "firstImage (p # ps) =
     (case inlineData p of
        Some b \<Rightarrow> Some (dataUrl b)
      | None \<Rightarrow> firstImage ps)"

definition responseParts :: "GenerateContentResponse \<Rightarrow> Part list option" where
  \<comment> \<open>\<open>response.candidates && response.candidates[0]?.content?.parts\<close>\<close>
  "responseParts response =
     (case candidates response of
        None \<Rightarrow> None
      | Some [] \<Rightarrow> None
      | Some (c # cs) \<Rightarrow> (case content c of None \<Rightarrow> None | Some ct \<Rightarrow> parts ct))"

definition generateUnpack :: "GenerateContentResponse \<Rightarrow> thrown + ImageResult" where
  "generateUnpack response =
     (let img = (case responseParts response of None \<Rightarrow> None | Some ps \<Rightarrow> firstImage ps)
      in if \<not> truthy img then
           Inl (Error ''AI failed to generate a new image. Please try a different combination of images or prompt.'')
         else Inr \<lparr>imageUrl = img\<rparr>)"

definition generateRequest :: "string \<Rightarrow> RequestPart list \<Rightarrow> Request" where
  "generateRequest prompt imgs =
     \<lparr>model = ''gemini-2.5-flash-image-preview'',
      contents = imgs @ [Text prompt],
      responseModalities = [IMAGE]\<rparr>"

definition generateSurfaceDesign ::
    "api \<Rightarrow> string \<Rightarrow> File list \<Rightarrow> ImageResult outcome" where
  "generateSurfaceDesign api prompt images =
     (case imageParts images of
        Inl e \<Rightarrow> ([], Inl e)
      | Inr imgs \<Rightarrow>
          (let req = generateRequest prompt imgs
           in ([req],
               (case api req of Inl e \<Rightarrow> Inl e | Inr response \<Rightarrow> generateUnpack response))))"

subsection \<open>The five prompt templates\<close>

datatype SurfaceType = Flooring | Walls

datatype ExtractionType = Pattern | Material

fun surfaceTypeString :: "SurfaceType \<Rightarrow> string" where
  "surfaceTypeString Flooring = ''Flooring''"
| "surfaceTypeString Walls = ''Walls''"

fun extractionTypeString :: "ExtractionType \<Rightarrow> string" where
  "extractionTypeString Pattern = ''Pattern''"
| "extractionTypeString Material = ''Material''"

definition extractDimensionInstruction :: "string option \<Rightarrow> string" where
  "extractDimensionInstruction dimensions =
     (if truthy dimensions then
        ''The user has specified that the subject in the photo has real-world dimensions of '' @ template dimensions @ ''. Ensure the output image accurately reflects this scale.''
      else [])"

definition extractPrompt :: "ExtractionType \<Rightarrow> string option \<Rightarrow> string" where
  "extractPrompt extractionType dimensions = ''\<newline>        You are an expert AI assistant specializing in creating professional, catalogue-ready images for the luxury design brand Bovali.\<newline>        Your task is to process the user-submitted photograph and extract a specific element.\<newline>        Analyze the image and correct for any perspective distortion, angled views, uneven lighting, and color inconsistencies.\<newline>        The final result must be a clean, seamless, front-facing, high-resolution image of the requested element, suitable for a professional design catalogue.\<newline>\<newline>        Extraction Type: Extract the '' @ extractionTypeString extractionType @ ''.\<newline>        - If 'Pattern', isolate the primary repeating pattern.\<newline>        - If 'Material', isolate the material's texture, color, and finish, ignoring distinct patterns unless they are part of the material itself (like wood grain).\<newline>        \<newline>        '' @ extractDimensionInstruction dimensions @ ''\<newline>\<newline>        Output only the processed image. Do not add text or other artifacts. The image is provided after this prompt.\<newline>    ''"

definition extractAndProcessImage ::
    "api \<Rightarrow> File \<Rightarrow> ExtractionType \<Rightarrow> string option \<Rightarrow> ImageResult outcome" where
  "extractAndProcessImage api sourceImg extractionType dimensions =
     generateSurfaceDesign api (extractPrompt extractionType dimensions) [sourceImg]"

definition tileDimensionInstruction :: "string option \<Rightarrow> string" where
  "tileDimensionInstruction tileDimensions =
     (if truthy tileDimensions then
        ''The \"Pattern Image\" represents a single tile with the dimensions '' @ template tileDimensions @ ''. Use this information to accurately scale the pattern on the surface.''
      else [])"

definition patternAndMaterialPrompt :: "SurfaceType \<Rightarrow> string option \<Rightarrow> string" where
  "patternAndMaterialPrompt surface tileDimensions = ''\<newline>        You are an AI assistant for Bovali, a luxury interior design brand.\<newline>        Your task is to modify the primary \"Render Shot\" image.\<newline>        Identify the '' @ toLowerCase (surfaceTypeString surface) @ '' in the \"Render Shot\".\<newline>        Apply the visual pattern from the \"Pattern Image\" to the '' @ toLowerCase (surfaceTypeString surface) @ ''.\<newline>        Then, apply the texture, material properties (like gloss, reflection, texture), and color palette from the \"Material Image\" to the same '' @ toLowerCase (surfaceTypeString surface) @ ''.\<newline>        '' @ tileDimensionInstruction tileDimensions @ ''\<newline>        The final result must be a single, photorealistic image that seamlessly integrates the new pattern and material onto the specified surface in the original render shot, maintaining realistic lighting, shadows, and perspective.\<newline>        Do not add any text or other artifacts to the image. Output only the modified image.\<newline>        The images are provided after this prompt.\<newline>    ''"

definition applyPatternAndMaterial ::
    "api \<Rightarrow> File \<Rightarrow> File \<Rightarrow> File \<Rightarrow> SurfaceType \<Rightarrow> string option
      \<Rightarrow> ImageResult outcome" where
  "applyPatternAndMaterial api renderImg patternImg materialImg surface tileDimensions =
     generateSurfaceDesign api (patternAndMaterialPrompt surface tileDimensions)
       [renderImg, patternImg, materialImg]"

definition patternOnlyPrompt :: "SurfaceType \<Rightarrow> string option \<Rightarrow> string" where
  "patternOnlyPrompt surface tileDimensions = ''\<newline>        You are an AI assistant for Bovali, a luxury interior design brand.\<newline>        Your task is to modify the primary \"Render Shot\" image.\<newline>        Identify the '' @ toLowerCase (surfaceTypeString surface) @ '' in the \"Render Shot\".\<newline>        Apply ONLY the visual pattern from the \"Pattern Image\" to the '' @ toLowerCase (surfaceTypeString surface) @ ''.\<newline>        '' @ tileDimensionInstruction tileDimensions @ ''\<newline>        The original material, texture, lighting, and colors of the surface in the \"Render Shot\" should be preserved as much as possible.\<newline>        The final result must be a single, photorealistic image that seamlessly integrates the new pattern onto the specified surface in the original render shot, maintaining realistic lighting, shadows, and perspective.\<newline>        Do not add any text or other artifacts to the image. Output only the modified image.\<newline>        The images are provided after this prompt.\<newline>    ''"

definition applyPatternOnly ::
    "api \<Rightarrow> File \<Rightarrow> File \<Rightarrow> SurfaceType \<Rightarrow> string option \<Rightarrow> ImageResult outcome" where
  "applyPatternOnly api renderImg patternImg surface tileDimensions =
     generateSurfaceDesign api (patternOnlyPrompt surface tileDimensions) [renderImg, patternImg]"

definition materialOnlyPrompt :: "SurfaceType \<Rightarrow> string" where
  "materialOnlyPrompt surface = ''\<newline>        You are an AI assistant for Bovali, a luxury interior design brand.\<newline>        Your task is to modify the primary \"Render Shot\" image.\<newline>        Identify the '' @ toLowerCase (surfaceTypeString surface) @ '' in the \"Render Shot\".\<newline>        Apply ONLY the texture, material properties (like gloss, reflection, texture), and color palette from the \"Material Image\" to the '' @ toLowerCase (surfaceTypeString surface) @ ''.\<newline>        If the original surface had a pattern, it should be preserved if possible, but rendered with the new material properties.\<newline>        The final result must be a single, photorealistic image that seamlessly integrates the new material onto the specified surface in the original render shot, maintaining realistic lighting, shadows, and perspective.\<newline>        Do not add any text or other artifacts to the image. Output only the modified image.\<newline>        The images are provided after this prompt.\<newline>    ''"

definition applyMaterialOnly ::
    "api \<Rightarrow> File \<Rightarrow> File \<Rightarrow> SurfaceType \<Rightarrow> ImageResult outcome" where
  "applyMaterialOnly api renderImg materialImg surface =
     generateSurfaceDesign api (materialOnlyPrompt surface) [renderImg, materialImg]"

section \<open>App.tsx\<close>

subsection \<open>State of the view controller\<close>

datatype Sender = User | Bot

record Message =
  msgId :: nat
  msgText :: string
  sender :: Sender

datatype GenerationMode = PatternAndMaterial | PatternOnly | MaterialOnly

datatype TileUnit = Cm | Inches

datatype ActiveTab = Generator | Extractor

fun tileUnitString :: "TileUnit \<Rightarrow> string" where
  "tileUnitString Cm = ''cm''"
| "tileUnitString Inches = ''inches''"

text \<open>
  Modelled from the spec: \<open>ImageState\<close>, declared in \<open>types.ts\<close>, which is not among the
  sources: a file reference (optional) and a locally created preview locator (optional),
  as \<open>{ file: null, previewUrl: null }\<close> in \<open>App.tsx\<close> initialises it.
\<close>

record ImageState =
  imgFile :: "File option"
  previewUrl :: "string option"

definition noImage :: ImageState where
  "noImage = \<lparr>imgFile = None, previewUrl = None\<rparr>"

text \<open>
  The component's \<open>useState\<close> cells and the \<open>chatRef\<close>, followed by the trace of what the
  component did to the outside: the locators passed to \<open>URL.revokeObjectURL\<close>, the
  requests sent to the model, the turns sent through a chat session, and the number of
  times \<open>createBovaliChat\<close> ran.
\<close>

record App =
  activeTab :: ActiveTab
  surfaceType :: SurfaceType
  generationMode :: GenerationMode
  renderShot :: ImageState
  pattern :: ImageState
  material :: ImageState
  outputImage :: "string option"
  loading :: bool
  error :: "string option"
  tileWidth :: string
  tileHeight :: string
  tileUnit :: TileUnit
  sourceImage :: ImageState
  extractionType :: ExtractionType
  processedImage :: "string option"
  isProcessing :: bool
  processingError :: "string option"
  sourceWidth :: string
  sourceHeight :: string
  sourceUnit :: TileUnit
  isChatOpen :: bool
  isBotTyping :: bool
  messages :: "Message list"
  chatRef :: "Chat option"
  revoked :: "string list"
  sent :: "Request list"
  chatTurns :: "(Chat \<times> string) list"
  chatsCreated :: nat

definition initialApp :: App where
  "initialApp =
     \<lparr>activeTab = Generator, surfaceType = Flooring, generationMode = PatternAndMaterial,
      renderShot = noImage, pattern = noImage, material = noImage,
      outputImage = None, loading = False, error = None,
      tileWidth = [], tileHeight = [], tileUnit = Cm,
      sourceImage = noImage, extractionType = Pattern,
      processedImage = None, isProcessing = False, processingError = None,
      sourceWidth = [], sourceHeight = [], sourceUnit = Cm,
      isChatOpen = False, isBotTyping = False,
      messages =
        [\<lparr>msgId = 1, msgText = ''Hello! How can I assist you with your Bovali design today?'',
          sender = Bot\<rparr>],
      chatRef = None,
      revoked = [], sent = [], chatTurns = [], chatsCreated = 0\<rparr>"

text \<open>
  What the browser and the model service answer while one handler runs: the model's reply
  to a request, the chat session's reply text to a message, the locator
  \<open>URL.createObjectURL\<close> hands out, and the two readings of \<open>Date.now()\<close>.
\<close>

record Env =
  generateContent :: "Request \<Rightarrow> thrown + GenerateContentResponse"
  sendMessage :: "Chat \<Rightarrow> string \<Rightarrow> thrown + string"
  createObjectURL :: "File \<Rightarrow> string"
  dateNow :: nat
  dateNowLater :: nat

subsection \<open>Effects\<close>

definition chatInitEffect :: "App \<Rightarrow> App" where
  "chatInitEffect s =
     (case chatRef s of
        None \<Rightarrow> s\<lparr>chatRef := Some (createBovaliChat (chatsCreated s)),
                   chatsCreated := chatsCreated s + 1\<rparr>
      | Some c \<Rightarrow> s)"

definition tabEffect :: "App \<Rightarrow> App" where
  "tabEffect s =
     (if activeTab s = Generator then
        s\<lparr>sourceImage := noImage, processedImage := None, processingError := None,
          sourceWidth := [], sourceHeight := []\<rparr>
      else
        s\<lparr>renderShot := noImage, pattern := noImage, material := noImage,
          outputImage := None, error := None, tileWidth := [], tileHeight := []\<rparr>)"

definition modeEffect :: "App \<Rightarrow> App" where
  "modeEffect s =
     s\<lparr>renderShot := noImage, pattern := noImage, material := noImage,
       tileWidth := [], tileHeight := [], error := None, outputImage := None\<rparr>"

definition mount :: App where
  \<comment> \<open>the first render: every effect runs once, in the order of declaration\<close>
  "mount = modeEffect (tabEffect (chatInitEffect initialApp))"

definition setActiveTab :: "ActiveTab \<Rightarrow> App \<Rightarrow> App" where
  \<comment> \<open>the effect depending on \<open>activeTab\<close> runs when the value has changed\<close>
  "setActiveTab t s = (if activeTab s = t then s else tabEffect (s\<lparr>activeTab := t\<rparr>))"

definition setGenerationMode :: "GenerationMode \<Rightarrow> App \<Rightarrow> App" where
  "setGenerationMode m s =
     (if generationMode s = m then s else modeEffect (s\<lparr>generationMode := m\<rparr>))"

subsection \<open>parseDataUrl\<close>

definition lineTerminatorAt :: "string \<Rightarrow> bool" where
  \<comment> \<open>a line terminator starts here: LF, CR, or U+2028 or U+2029 in UTF-8\<close>
  "lineTerminatorAt s =
     (take 1 s = [CHR ''\<newline>''] \<or> take 1 s = [CHR 0x0D]
      \<or> take 3 s = [CHR 0xE2, CHR 0x80, CHR 0xA8] \<or> take 3 s = [CHR 0xE2, CHR 0x80, CHR 0xA9])"

fun lazyToSemicolon :: "string \<Rightarrow> string option" where
  \<comment> \<open>\<open>(.*?);\<close> from the current position: the dot matches no line terminator\<close>
  "lazyToSemicolon [] = None"
| "lazyToSemicolon (c # cs) =
     (if c = CHR '';'' then Some []
      else if lineTerminatorAt (c # cs) then None
      else map_option ((#) c) (lazyToSemicolon cs))"

fun matchMime :: "string \<Rightarrow> string option" where
  \<comment> \<open>group 1 of the leftmost match of \<open>/:(.*?);/\<close>\<close>
  "matchMime [] = None"
| "matchMime (c # cs) =
     (if c = CHR '':'' then
        (case lazyToSemicolon cs of Some m \<Rightarrow> Some m | None \<Rightarrow> matchMime cs)
      else matchMime cs)"

definition parseDataUrl :: "string \<Rightarrow> thrown + string \<times> string option" where
  "parseDataUrl url =
     (let ps = split CHR '','' url
      in case index ps 0 of
           None \<Rightarrow> Inl (TypeError (cannotRead ''match''))
         | Some p0 \<Rightarrow>
             (case matchMime p0 of
                None \<Rightarrow> Inl (Error ''Invalid data URL format'')
              | Some mime \<Rightarrow> Inr (mime, index ps 1)))"

subsection \<open>handleSendMessage\<close>

definition addMessage :: "nat \<Rightarrow> string \<Rightarrow> Sender \<Rightarrow> App \<Rightarrow> App" where
  "addMessage i t who s =
     s\<lparr>messages := messages s @ [\<lparr>msgId = i, msgText = t, sender = who\<rparr>]\<rparr>"

definition chatEditCatch :: "Env \<Rightarrow> thrown \<Rightarrow> App \<Rightarrow> App" where
  "chatEditCatch env e s =
     addMessage (dateNowLater env + 1)
       (if instanceofError e then message e
        else ''Sorry, I couldn't edit the image. Please try a different instruction.'')
       Bot s"

definition chatEdit :: "Env \<Rightarrow> string \<Rightarrow> string \<Rightarrow> App \<Rightarrow> App" where
  \<comment> \<open>the branch taken when an output image exists and the generator tab is active\<close>
  "chatEdit env url msg s =
     (let s' =
        (case parseDataUrl url of
           Inl e \<Rightarrow> chatEditCatch env e s
         | Inr (mime, base64) \<Rightarrow>
             (case editImageWithPrompt (generateContent env) base64 mime msg of
                (reqs, r) \<Rightarrow>
                  (let s1 = s\<lparr>sent := sent s @ reqs\<rparr>
                   in case r of
                        Inl e \<Rightarrow> chatEditCatch env e s1
                      | Inr res \<Rightarrow>
                          if truthy (imageUrl res) then
                            addMessage (dateNowLater env + 1)
                              (if truthy (resultText res) then template (resultText res)
                               else ''Of course. Here is the updated design.'')
                              Bot (s1\<lparr>outputImage := imageUrl res\<rparr>)
                          else
                            chatEditCatch env
                              (Error ''The AI did not return a new image for your edit request.'')
                              s1)))
      in s'\<lparr>isBotTyping := False\<rparr>)"

definition chatTurn :: "Env \<Rightarrow> string \<Rightarrow> App \<Rightarrow> App" where
  \<comment> \<open>the other branch: through \<open>chatRef.current\<close>, when it is set\<close>
  "chatTurn env msg s =
     (case chatRef s of
        None \<Rightarrow> s
      | Some chat \<Rightarrow>
          (let s1 = s\<lparr>chatTurns := chatTurns s @ [(chat, msg)]\<rparr>;
               s2 = (case sendMessage env chat msg of
                       Inr botMessageText \<Rightarrow> addMessage (dateNowLater env + 1) botMessageText Bot s1
                     | Inl e \<Rightarrow>
                         addMessage (dateNowLater env + 1)
                           ''I'm sorry, I encountered an error. Please try again.'' Bot s1)
           in s2\<lparr>isBotTyping := False\<rparr>))"

definition handleSendMessage :: "Env \<Rightarrow> string \<Rightarrow> App \<Rightarrow> App" where
  "handleSendMessage env msg s =
     (let s0 = (addMessage (dateNow env) msg User s)\<lparr>isBotTyping := True, error := None\<rparr>
      in if truthy (outputImage s) \<and> activeTab s = Generator
         then chatEdit env (template (outputImage s)) msg s0
         else chatTurn env msg s0)"

subsection \<open>handleImageSelect and handleImageRemove\<close>

datatype Setter = setRenderShot | setPattern | setMaterial | setSourceImage

fun slot :: "Setter \<Rightarrow> App \<Rightarrow> ImageState" where
  "slot setRenderShot s = renderShot s"
| "slot setPattern s = pattern s"
| "slot setMaterial s = material s"
| "slot setSourceImage s = sourceImage s"

fun setSlot :: "Setter \<Rightarrow> ImageState \<Rightarrow> App \<Rightarrow> App" where
  "setSlot setRenderShot v s = s\<lparr>renderShot := v\<rparr>"
| "setSlot setPattern v s = s\<lparr>pattern := v\<rparr>"
| "setSlot setMaterial v s = s\<lparr>material := v\<rparr>"
| "setSlot setSourceImage v s = s\<lparr>sourceImage := v\<rparr>"

definition revokePrevious :: "ImageState \<Rightarrow> App \<Rightarrow> App" where
  \<comment> \<open>\<open>if (prevState.previewUrl) URL.revokeObjectURL(prevState.previewUrl)\<close>\<close>
  "revokePrevious prevState s =
     (case previewUrl prevState of
        None \<Rightarrow> s
      | Some u \<Rightarrow> if u = [] then s else s\<lparr>revoked := revoked s @ [u]\<rparr>)"

definition resetOutputs :: "App \<Rightarrow> App" where
  "resetOutputs s =
     s\<lparr>outputImage := None, error := None, processedImage := None, processingError := None\<rparr>"

definition handleImageSelect :: "Env \<Rightarrow> File \<Rightarrow> Setter \<Rightarrow> App \<Rightarrow> App" where
  "handleImageSelect env f setter s =
     resetOutputs
       (setSlot setter \<lparr>imgFile = Some f, previewUrl = Some (createObjectURL env f)\<rparr>
          (revokePrevious (slot setter s) s))"

definition handleImageRemove :: "Setter \<Rightarrow> App \<Rightarrow> App" where
  "handleImageRemove setter s =
     resetOutputs (setSlot setter noImage (revokePrevious (slot setter s) s))"

subsection \<open>handleGeneratorSubmit and handleProcessImage\<close>

definition dimensionsOf :: "string \<Rightarrow> string \<Rightarrow> TileUnit \<Rightarrow> string option" where
  \<comment> \<open>\<open>if (w && h) dimensions = `${w} x ${h} ${unit}`\<close>, else undefined\<close>
  "dimensionsOf w h u =
     (if w \<noteq> [] \<and> h \<noteq> [] then Some (w @ '' x '' @ h @ '' '' @ tileUnitString u) else None)"

definition generatorCall :: "Env \<Rightarrow> App \<Rightarrow> ImageResult outcome" where
  \<comment> \<open>the switch on the generation mode, with its checks of the required files\<close>
  "generatorCall env s =
     (let tileDimensions = dimensionsOf (tileWidth s) (tileHeight s) (tileUnit s)
      in case generationMode s of
           PatternAndMaterial \<Rightarrow>
             (case (imgFile (renderShot s), imgFile (pattern s), imgFile (material s)) of
                (Some r, Some p, Some m) \<Rightarrow>
                  applyPatternAndMaterial (generateContent env) r p m (surfaceType s) tileDimensions
              | _ \<Rightarrow> ([], Inl (Error ''Please upload all three images for this mode.'')))
         | PatternOnly \<Rightarrow>
             (case (imgFile (renderShot s), imgFile (pattern s)) of
                (Some r, Some p) \<Rightarrow>
                  applyPatternOnly (generateContent env) r p (surfaceType s) tileDimensions
              | _ \<Rightarrow>
                  ([], Inl (Error ''Please upload a Render Shot and a Pattern Image for this mode.'')))
         | MaterialOnly \<Rightarrow>
             (case (imgFile (renderShot s), imgFile (material s)) of
                (Some r, Some m) \<Rightarrow> applyMaterialOnly (generateContent env) r m (surfaceType s)
              | _ \<Rightarrow>
                  ([], Inl (Error ''Please upload a Render Shot and a Material Image for this mode.''))))"

definition handleGeneratorSubmit :: "Env \<Rightarrow> App \<Rightarrow> App" where
  "handleGeneratorSubmit env s =
     (case generatorCall env s of
        (reqs, r) \<Rightarrow>
          (let s1 = s\<lparr>loading := True, error := None, outputImage := None, sent := sent s @ reqs\<rparr>;
               s2 = (case r of
                       Inr result \<Rightarrow>
                         if truthy (imageUrl result) then s1\<lparr>outputImage := imageUrl result\<rparr>
                         else s1\<lparr>error :=
                                Some ''Failed to generate image. The API did not return an image.''\<rparr>
                     | Inl err \<Rightarrow>
                         if instanceofError err then s1\<lparr>error := Some (message err)\<rparr>
                         else s1\<lparr>error := Some ''An unknown error occurred.''\<rparr>)
           in s2\<lparr>loading := False\<rparr>))"

definition getIsGeneratorButtonDisabled :: "App \<Rightarrow> bool" where
  "getIsGeneratorButtonDisabled s =
     (if loading s then True
      else case generationMode s of
             PatternAndMaterial \<Rightarrow>
               imgFile (renderShot s) = None \<or> imgFile (pattern s) = None
                 \<or> imgFile (material s) = None
           | PatternOnly \<Rightarrow> imgFile (renderShot s) = None \<or> imgFile (pattern s) = None
           | MaterialOnly \<Rightarrow> imgFile (renderShot s) = None \<or> imgFile (material s) = None)"

definition handleProcessImage :: "Env \<Rightarrow> App \<Rightarrow> App" where
  "handleProcessImage env s =
     (case imgFile (sourceImage s) of
        None \<Rightarrow> s\<lparr>processingError := Some ''Please upload an image to process.''\<rparr>
      | Some f \<Rightarrow>
          (case extractAndProcessImage (generateContent env) f (extractionType s)
                  (dimensionsOf (sourceWidth s) (sourceHeight s) (sourceUnit s)) of
             (reqs, r) \<Rightarrow>
               (let s1 = s\<lparr>isProcessing := True, processingError := None, processedImage := None,
                            sent := sent s @ reqs\<rparr>;
                    s2 = (case r of
                            Inr result \<Rightarrow>
                              if truthy (imageUrl result)
                              then s1\<lparr>processedImage := imageUrl result\<rparr>
                              else s1\<lparr>processingError :=
                                     Some ''Failed to process image. The AI did not return an image.''\<rparr>
                          | Inl err \<Rightarrow>
                              if instanceofError err then s1\<lparr>processingError := Some (message err)\<rparr>
                              else s1\<lparr>processingError :=
                                     Some ''An unknown error occurred during processing.''\<rparr>)
                in s2\<lparr>isProcessing := False\<rparr>)))"

definition getIsExtractorButtonDisabled :: "App \<Rightarrow> bool" where
  "getIsExtractorButtonDisabled s = (isProcessing s \<or> imgFile (sourceImage s) = None)"

subsection \<open>The component over its lifetime\<close>

text \<open>
  What the user can do, as the JSX wires it to the setters and handlers. A handler is
  taken as one step, from its call to the end of its \<open>finally\<close> block, with the
  values of the render it was called in; a second user action while a request is in
  flight is outside this model.
\<close>

datatype Event =
    ClickTab ActiveTab
  | ClickMode GenerationMode
  | ClickSurface SurfaceType
  | ClickExtraction ExtractionType
  | TypeTileWidth string
  | TypeTileHeight string
  | PickTileUnit TileUnit
  | TypeSourceWidth string
  | TypeSourceHeight string
  | PickSourceUnit TileUnit
  | SelectImage Setter File
  | RemoveImage Setter
  | ClickGenerate
  | ClickProcess
  | OpenChat
  | CloseChat
  | SendChat string

fun step :: "Env \<Rightarrow> Event \<Rightarrow> App \<Rightarrow> App" where
  "step env (ClickTab t) s = setActiveTab t s"
| "step env (ClickMode m) s = setGenerationMode m s"
| "step env (ClickSurface t) s = s\<lparr>surfaceType := t\<rparr>"
| "step env (ClickExtraction t) s = s\<lparr>extractionType := t\<rparr>"
| "step env (TypeTileWidth v) s = s\<lparr>tileWidth := v\<rparr>"
| "step env (TypeTileHeight v) s = s\<lparr>tileHeight := v\<rparr>"
| "step env (PickTileUnit u) s = s\<lparr>tileUnit := u\<rparr>"
| "step env (TypeSourceWidth v) s = s\<lparr>sourceWidth := v\<rparr>"
| "step env (TypeSourceHeight v) s = s\<lparr>sourceHeight := v\<rparr>"
| "step env (PickSourceUnit u) s = s\<lparr>sourceUnit := u\<rparr>"
| "step env (SelectImage setter f) s = handleImageSelect env f setter s"
| "step env (RemoveImage setter) s = handleImageRemove setter s"
| "step env ClickGenerate s = handleGeneratorSubmit env s"
| "step env ClickProcess s = handleProcessImage env s"
| "step env OpenChat s = s\<lparr>isChatOpen := True\<rparr>"
| "step env CloseChat s = s\<lparr>isChatOpen := False\<rparr>"
| "step env (SendChat msg) s = handleSendMessage env msg s"

fun run :: "(Env \<times> Event) list \<Rightarrow> App \<Rightarrow> App" where
  \<comment> \<open>the handlers run one after the other, each to its end\<close>
  "run [] s = s"
| "run ((env, ev) # evs) s = run evs (step env ev s)"

section \<open>Vocabulary of the statements\<close>

text \<open>
  The blobs of the image-bearing parts of a part list, in order, and the texts the edit
  loop can pick up: the non-empty texts of the parts without inline data. A response is
  readable by the edit loop when it has no first candidate or that candidate has content
  with a part list.
\<close>

fun imageBlobs :: "Part list \<Rightarrow> Blob list" where
  "imageBlobs [] = []"
| "imageBlobs (p # ps) =
     (case inlineData p of Some b \<Rightarrow> b # imageBlobs ps | None \<Rightarrow> imageBlobs ps)"

fun plainTexts :: "Part list \<Rightarrow> string list" where
  "plainTexts [] = []"
| "plainTexts (p # ps) =
     (case inlineData p of
        Some b \<Rightarrow> plainTexts ps
      | None \<Rightarrow> if truthy (partText p) then template (partText p) # plainTexts ps else plainTexts ps)"

definition responseBlobs :: "GenerateContentResponse \<Rightarrow> Blob list" where
  "responseBlobs response =
     (case responseParts response of None \<Rightarrow> [] | Some ps \<Rightarrow> imageBlobs ps)"

definition responseTexts :: "GenerateContentResponse \<Rightarrow> string list" where
  "responseTexts response =
     (case responseParts response of None \<Rightarrow> [] | Some ps \<Rightarrow> plainTexts ps)"

definition partsReadable :: "GenerateContentResponse \<Rightarrow> bool" where
  "partsReadable response =
     (case candidates response of
        None \<Rightarrow> True
      | Some [] \<Rightarrow> True
      | Some (c # cs) \<Rightarrow> responseParts response \<noteq> None)"

text \<open>
  A returned result comes from the response: exactly one request was sent, the model
  answered it, and the result's \<open>imageUrl\<close> is the data URL built from the MIME type
  and the bytes of the first image-bearing part of the answer.
\<close>

definition fromResponse :: "api \<Rightarrow> Request list \<Rightarrow> ImageResult \<Rightarrow> bool" where
  "fromResponse api reqs result =
     (case reqs of
        [req] \<Rightarrow>
          (case api req of
             Inl e \<Rightarrow> False
           | Inr response \<Rightarrow>
               (case responseBlobs response of
                  [] \<Rightarrow> False
                | b # bs \<Rightarrow>
                    imageUrl result = Some (''data:'' @ mimeType b @ '';base64,'' @ data b)))
      | _ \<Rightarrow> False)"


definition missingRequired :: "App \<Rightarrow> bool" where
  "missingRequired s =
     (case generationMode s of
        PatternAndMaterial \<Rightarrow>
          imgFile (renderShot s) = None \<or> imgFile (pattern s) = None \<or> imgFile (material s) = None
      | PatternOnly \<Rightarrow> imgFile (renderShot s) = None \<or> imgFile (pattern s) = None
      | MaterialOnly \<Rightarrow> imgFile (renderShot s) = None \<or> imgFile (material s) = None)"

fun validationMessage :: "GenerationMode \<Rightarrow> string" where
  "validationMessage PatternAndMaterial = ''Please upload all three images for this mode.''"
| "validationMessage PatternOnly = ''Please upload a Render Shot and a Pattern Image for this mode.''"
| "validationMessage MaterialOnly = ''Please upload a Render Shot and a Material Image for this mode.''"

text \<open>
  The component holds one chat session, made first and used by every turn.
\<close>

definition oneSession :: "App \<Rightarrow> bool" where
  "oneSession s =
     (chatsCreated s = 1 \<and> chatRef s = Some (createBovaliChat 0)
      \<and> list_all (\<lambda>turn. fst turn = createBovaliChat 0) (chatTurns s))"

section \<open>Sample inputs\<close>

definition imagePart :: "string \<Rightarrow> string \<Rightarrow> Part" where
  "imagePart mime bytes = \<lparr>inlineData = Some \<lparr>data = bytes, mimeType = mime\<rparr>, partText = None\<rparr>"

definition textPart :: "string \<Rightarrow> Part" where
  "textPart t = \<lparr>inlineData = None, partText = Some t\<rparr>"

definition responseOf :: "Part list \<Rightarrow> GenerateContentResponse" where
  "responseOf ps = \<lparr>candidates = Some [\<lparr>content = Some \<lparr>parts = Some ps\<rparr>\<rparr>]\<rparr>"

definition blockedResponse :: GenerateContentResponse where
  \<comment> \<open>a candidate without content, as for a blocked generation\<close>
  "blockedResponse = \<lparr>candidates = Some [\<lparr>content = None\<rparr>]\<rparr>"

definition replyWith :: "GenerateContentResponse \<Rightarrow> api" where
  "replyWith response req = Inr response"

definition pngFile :: File where
  "pngFile = \<lparr>fileType = ''image/png'', readAsDataURL = Inr ''data:image/png;base64,iVBORw0KGgo=''\<rparr>"

definition jpegFile :: File where
  "jpegFile = \<lparr>fileType = ''image/jpeg'', readAsDataURL = Inr ''data:image/jpeg;base64,/9j/4AAQ''\<rparr>"

definition chatReply :: "Chat \<Rightarrow> string \<Rightarrow> thrown + string" where
  "chatReply chat msg = Inr ''Certainly.''"

definition objectUrl :: "File \<Rightarrow> string" where
  "objectUrl f = ''blob:preview-1''"

definition sampleEnv :: Env where
  "sampleEnv =
     \<lparr>generateContent = replyWith (responseOf [imagePart ''image/png'' ''AAAA'']),
      sendMessage = chatReply, createObjectURL = objectUrl, dateNow = 1000, dateNowLater = 1001\<rparr>"



definition renderOnlyPatternMode :: App where
  "renderOnlyPatternMode =
     run [(sampleEnv, ClickMode PatternOnly), (sampleEnv, SelectImage setRenderShot pngFile)] mount"

definition renderOnlyMaterialMode :: App where
  "renderOnlyMaterialMode =
     run [(sampleEnv, ClickMode MaterialOnly), (sampleEnv, SelectImage setRenderShot pngFile)] mount"

definition withRenderShot :: App where
  "withRenderShot = handleImageSelect sampleEnv pngFile setRenderShot mount"

definition generated :: App where
  "generated =
     run [(sampleEnv, SelectImage setRenderShot pngFile),
          (sampleEnv, SelectImage setPattern jpegFile),
          (sampleEnv, SelectImage setMaterial jpegFile),
          (sampleEnv, ClickGenerate)] mount"

section \<open>The orchestrator\<close>

lemma dataUrl_nonempty: "dataUrl b \<noteq> []"
  by (simp add: dataUrl_def)

lemma dataUrl_truthy: "truthy (Some (dataUrl b))"
  by (simp add: truthy_def dataUrl_def)

lemma firstImage_imageBlobs:
  "firstImage ps = (case imageBlobs ps of [] \<Rightarrow> None | b # bs \<Rightarrow> Some (dataUrl b))"
  by (induction ps) (auto split: option.splits)

lemma editParts_fst:
  "fst (editParts ps (im, tx)) =
     (if imageBlobs ps = [] then im else Some (dataUrl (last (imageBlobs ps))))"
  by (induction ps arbitrary: im tx) (auto split: option.splits)

lemma truthy_template: "truthy v \<Longrightarrow> Some (template v) = v"
  by (auto simp: truthy_def template_def split: option.splits)

lemma editParts_snd:
  "snd (editParts ps (im, tx)) =
     (if plainTexts ps = [] then tx else Some (last (plainTexts ps)))"
  by (induction ps arbitrary: im tx) (auto split: option.splits simp: truthy_template)

lemma editScan_readable:
  "partsReadable response \<Longrightarrow>
   editScan response =
     Inr (if responseBlobs response = [] then None
          else Some (dataUrl (last (responseBlobs response))),
          if responseTexts response = [] then None
          else Some (last (responseTexts response)))"
  unfolding partsReadable_def editScan_def responseBlobs_def responseTexts_def responseParts_def
  by (auto split: option.splits list.splits
           simp: prod_eq_iff editParts_fst editParts_snd)

lemma generateUnpack_blobs:
  "generateUnpack response =
     (case responseBlobs response of
        [] \<Rightarrow> Inl (Error ''AI failed to generate a new image. Please try a different combination of images or prompt.'')
      | b # bs \<Rightarrow> Inr \<lparr>imageUrl = Some (dataUrl b)\<rparr>)"
  unfolding generateUnpack_def responseBlobs_def
  by (auto split: option.splits list.splits simp: firstImage_imageBlobs dataUrl_nonempty truthy_def)

lemma plainTexts_nonempty: "[] \<notin> set (plainTexts ps)"
  by (induction ps) (auto split: option.splits simp: truthy_def template_def)

lemma responseTexts_last: "responseTexts response \<noteq> [] \<Longrightarrow> last (responseTexts response) \<noteq> []"
  unfolding responseTexts_def
  by (metis last_in_set plainTexts_nonempty option.case_eq_if)

lemma editUnpack_readable:
  "partsReadable response \<Longrightarrow>
   editUnpack response =
     (if responseBlobs response = [] then
        Inl (Error (if responseTexts response = []
                    then ''The AI did not return an image for your edit request.''
                    else ''The AI responded but did not return an image: \"''
                           @ last (responseTexts response) @ ''\"''))
      else Inr \<lparr>imageUrl = Some (dataUrl (last (responseBlobs response))),
                resultText = (if responseTexts response = [] then None
                              else Some (last (responseTexts response)))\<rparr>)"
  by (simp add: editUnpack_def editScan_readable truthy_def template_def dataUrl_nonempty
        responseTexts_last)

lemma editUnpack_unreadable:
  "\<not> partsReadable response \<Longrightarrow> \<exists>m. editUnpack response = Inl (TypeError m)"
  unfolding partsReadable_def editUnpack_def editScan_def responseParts_def
  by (auto split: option.splits list.splits)

lemma responseBlobs_readable: "responseBlobs response \<noteq> [] \<Longrightarrow> partsReadable response"
  unfolding responseBlobs_def partsReadable_def
  by (auto split: option.splits list.splits)

lemma imageParts_pngFile:
  "imageParts [pngFile] = Inr [InlineData (Some ''iVBORw0KGgo='') ''image/png'']"
  by (simp add: fileToBase64_def pngFile_def index_def)

subsection \<open>Which image part becomes the result\<close>

text \<open>
  Claim C1, as the code has it. When the response holds at least one part with inline
  data, \<open>generateSurfaceDesign\<close> returns the data URL of the first such part and looks
  at nothing after it, while \<open>editImageWithPrompt\<close> runs its loop to the end and returns
  the data URL of the last such part (with the last non-empty text, if any).
\<close>

theorem image_part_selection:
  assumes "imageParts images = Inr imgs"
    and "api (generateRequest prompt imgs) = Inr response"
    and "api (editRequest base64Image mime instruction) = Inr response"
    and "responseBlobs response \<noteq> []"
  shows "snd (generateSurfaceDesign api prompt images) =
           Inr \<lparr>imageUrl = Some (dataUrl (hd (responseBlobs response)))\<rparr>
         \<and> snd (editImageWithPrompt api base64Image mime instruction) =
           Inr \<lparr>imageUrl = Some (dataUrl (last (responseBlobs response))),
                resultText = (if responseTexts response = [] then None
                              else Some (last (responseTexts response)))\<rparr>"
proof -
  from assms(4) obtain b bs where bs: "responseBlobs response = b # bs"
    by (cases "responseBlobs response") auto
  have g: "snd (generateSurfaceDesign api prompt images) =
             Inr \<lparr>imageUrl = Some (dataUrl (hd (responseBlobs response)))\<rparr>"
    using assms(1,2) bs by (simp add: generateSurfaceDesign_def generateUnpack_blobs)
  have "partsReadable response"
    using assms(4) by (rule responseBlobs_readable)
  then have e: "snd (editImageWithPrompt api base64Image mime instruction) =
           Inr \<lparr>imageUrl = Some (dataUrl (last (responseBlobs response))),
                resultText = (if responseTexts response = [] then None
                              else Some (last (responseTexts response)))\<rparr>"
    using assms(3,4) by (simp add: editImageWithPrompt_def editCatch_def editUnpack_readable)
  from g e show ?thesis by simp
qed

lemma twoImages_blobs:
  "responseBlobs (responseOf [imagePart ''image/png'' ''AAAA'', imagePart ''image/jpeg'' ''BBBB''])
     = [\<lparr>data = ''AAAA'', mimeType = ''image/png''\<rparr>, \<lparr>data = ''BBBB'', mimeType = ''image/jpeg''\<rparr>]"
  by (simp add: responseBlobs_def responseOf_def responseParts_def imagePart_def)

text \<open>
  Both operations on a response with a PNG part followed by a JPEG part.
\<close>

theorem image_part_selection_witness:
  "snd (generateSurfaceDesign
          (replyWith (responseOf [imagePart ''image/png'' ''AAAA'', imagePart ''image/jpeg'' ''BBBB'']))
          ''p'' [pngFile])
     = Inr \<lparr>imageUrl = Some ''data:image/png;base64,AAAA''\<rparr>
   \<and> snd (editImageWithPrompt
          (replyWith (responseOf [imagePart ''image/png'' ''AAAA'', imagePart ''image/jpeg'' ''BBBB'']))
          (Some ''QUJD'') ''image/png'' ''darker'')
     = Inr \<lparr>imageUrl = Some ''data:image/jpeg;base64,BBBB'', resultText = None\<rparr>"
proof -
  have a: "imageParts [pngFile] = Inr [InlineData (Some ''iVBORw0KGgo='') ''image/png'']"
    by (simp add: fileToBase64_def pngFile_def index_def)
  have t: "responseTexts (responseOf [imagePart ''image/png'' ''AAAA'', imagePart ''image/jpeg'' ''BBBB'']) = []"
    by (simp add: responseTexts_def responseOf_def responseParts_def imagePart_def)
  show ?thesis
    using image_part_selection [OF a, of
        "replyWith (responseOf [imagePart ''image/png'' ''AAAA'', imagePart ''image/jpeg'' ''BBBB''])"
        "''p''" "responseOf [imagePart ''image/png'' ''AAAA'', imagePart ''image/jpeg'' ''BBBB'']"
        "Some ''QUJD''" "''image/png''" "''darker''"]
    by (simp add: replyWith_def twoImages_blobs t dataUrl_def)
qed

text \<open>
  Claim C1 as written fails for \<open>editImageWithPrompt\<close>: on a response with two image
  parts the result is the second one, not the first.
\<close>

theorem edit_uses_last_image_counterexample:
  "snd (editImageWithPrompt
          (replyWith (responseOf [imagePart ''image/png'' ''AAAA'', imagePart ''image/jpeg'' ''BBBB'']))
          (Some ''QUJD'') ''image/png'' ''darker'')
     = Inr \<lparr>imageUrl = Some (dataUrl \<lparr>data = ''BBBB'', mimeType = ''image/jpeg''\<rparr>), resultText = None\<rparr>
   \<and> dataUrl \<lparr>data = ''BBBB'', mimeType = ''image/jpeg''\<rparr>
       \<noteq> dataUrl \<lparr>data = ''AAAA'', mimeType = ''image/png''\<rparr>"
  by (simp add: editImageWithPrompt_def replyWith_def responseOf_def imagePart_def editCatch_def
        editUnpack_def editScan_def truthy_def dataUrl_def)

subsection \<open>A response without an image\<close>

text \<open>
  Claim C2, as the code has it. On a response without an image-bearing part both
  operations throw. \<open>generateSurfaceDesign\<close> throws its one fixed message, whatever text
  or shape the response has. \<open>editImageWithPrompt\<close>, on a response whose parts it can
  read, throws a message quoting the last non-empty text of the response, or its fixed
  message when there is none.
\<close>

theorem no_image_errors:
  assumes "imageParts images = Inr imgs"
    and "api (generateRequest prompt imgs) = Inr response"
    and "api (editRequest base64Image mime instruction) = Inr response"
    and "responseBlobs response = []"
  shows "snd (generateSurfaceDesign api prompt images) =
           Inl (Error ''AI failed to generate a new image. Please try a different combination of images or prompt.'')
         \<and> (\<exists>e. snd (editImageWithPrompt api base64Image mime instruction) = Inl e)
         \<and> (partsReadable response \<longrightarrow>
              snd (editImageWithPrompt api base64Image mime instruction) =
                Inl (Error (if responseTexts response = []
                            then ''The AI did not return an image for your edit request.''
                            else ''The AI responded but did not return an image: \"''
                                   @ last (responseTexts response) @ ''\"'')))"
proof -
  have g: "snd (generateSurfaceDesign api prompt images) =
           Inl (Error ''AI failed to generate a new image. Please try a different combination of images or prompt.'')"
    using assms(1,2,4) by (simp add: generateSurfaceDesign_def generateUnpack_blobs)
  have r: "snd (editImageWithPrompt api base64Image mime instruction) =
             Inl (Error (if responseTexts response = []
                         then ''The AI did not return an image for your edit request.''
                         else ''The AI responded but did not return an image: \"''
                                @ last (responseTexts response) @ ''\"''))"
    if "partsReadable response"
    using that assms(3,4) by (simp add: editImageWithPrompt_def editCatch_def editUnpack_readable)
  have u: "\<exists>e. snd (editImageWithPrompt api base64Image mime instruction) = Inl e"
  proof (cases "partsReadable response")
    case True
    then show ?thesis using r by simp
  next
    case False
    then obtain m where "editUnpack response = Inl (TypeError m)"
      using editUnpack_unreadable by blast
    then show ?thesis
      using assms(3) by (simp add: editImageWithPrompt_def editCatch_def)
  qed
  from g u r show ?thesis by blast
qed

lemma textOnly_facts:
  "responseBlobs (responseOf [textPart ''I cannot edit this image.'']) = []"
  "responseTexts (responseOf [textPart ''I cannot edit this image.'']) = [''I cannot edit this image.'']"
  "partsReadable (responseOf [textPart ''I cannot edit this image.''])"
  by (simp_all add: responseBlobs_def responseTexts_def partsReadable_def responseOf_def
        responseParts_def textPart_def truthy_def template_def)

text \<open>
  Both operations on a response of one text part, and on a response whose only
  candidate has no content.
\<close>

theorem no_image_errors_witness:
  "partsReadable (responseOf [textPart ''I cannot edit this image.''])
   \<and> snd (generateSurfaceDesign (replyWith (responseOf [textPart ''I cannot edit this image.'']))
          ''p'' [pngFile])
     = Inl (Error ''AI failed to generate a new image. Please try a different combination of images or prompt.'')
   \<and> snd (editImageWithPrompt (replyWith (responseOf [textPart ''I cannot edit this image.'']))
          (Some ''QUJD'') ''image/png'' ''darker'')
     = Inl (Error ''The AI responded but did not return an image: \"I cannot edit this image.\"'')
   \<and> \<not> partsReadable blockedResponse
   \<and> snd (generateSurfaceDesign (replyWith blockedResponse) ''p'' [pngFile])
     = Inl (Error ''AI failed to generate a new image. Please try a different combination of images or prompt.'')
   \<and> snd (editImageWithPrompt (replyWith blockedResponse) (Some ''QUJD'') ''image/png'' ''darker'')
     = Inl (TypeError (cannotRead ''parts''))"
proof -
  have b: "responseBlobs blockedResponse = []" "\<not> partsReadable blockedResponse"
    by (simp_all add: blockedResponse_def responseBlobs_def responseParts_def partsReadable_def)
  have e: "snd (editImageWithPrompt (replyWith blockedResponse) (Some ''QUJD'') ''image/png'' ''darker'')
             = Inl (TypeError (cannotRead ''parts''))"
    by (simp add: editImageWithPrompt_def replyWith_def blockedResponse_def editCatch_def
          editUnpack_def editScan_def)
  show ?thesis
    using no_image_errors [OF imageParts_pngFile, of
        "replyWith (responseOf [textPart ''I cannot edit this image.''])"
        "''p''" "responseOf [textPart ''I cannot edit this image.'']"
        "Some ''QUJD''" "''image/png''" "''darker''"]
      no_image_errors [OF imageParts_pngFile, of "replyWith blockedResponse"
        "''p''" blockedResponse "Some ''QUJD''" "''image/png''" "''darker''"]
      b e
    by (simp add: replyWith_def textOnly_facts)
qed

text \<open>
  Claim C2 as written fails for \<open>generateSurfaceDesign\<close>: the response carries a
  text, and the message thrown does not contain it.
\<close>

theorem generate_ignores_text_counterexample:
  "snd (generateSurfaceDesign (replyWith (responseOf [textPart ''I cannot edit this image.'']))
          ''p'' [pngFile])
     = Inl (Error ''AI failed to generate a new image. Please try a different combination of images or prompt.'')
   \<and> \<not> sublist ''I cannot edit this image.''
         ''AI failed to generate a new image. Please try a different combination of images or prompt.''"
proof
  show "snd (generateSurfaceDesign (replyWith (responseOf [textPart ''I cannot edit this image.'']))
          ''p'' [pngFile])
     = Inl (Error ''AI failed to generate a new image. Please try a different combination of images or prompt.'')"
    by (simp add: generateSurfaceDesign_def fileToBase64_def pngFile_def index_def replyWith_def
          generateUnpack_blobs textOnly_facts)
  show "\<not> sublist ''I cannot edit this image.''
         ''AI failed to generate a new image. Please try a different combination of images or prompt.''"
    by code_simp
qed

subsection \<open>The returned locator\<close>

lemma generateSurfaceDesign_returns:
  "generateSurfaceDesign api prompt images = (reqs, Inr result) \<Longrightarrow> fromResponse api reqs result"
  unfolding fromResponse_def generateSurfaceDesign_def
  by (auto split: sum.splits list.splits simp: generateUnpack_blobs dataUrl_def Let_def)

text \<open>
  Claim C10. Whenever \<open>generateSurfaceDesign\<close>, or one of the four operations built
  on it, returns, the \<open>imageUrl\<close> of the result is not null: it is the data URL
  embedding the MIME type and the base64 bytes of an image part of the response.
\<close>

theorem returned_imageUrl_is_data_url:
  "(generateSurfaceDesign api prompt images = (reqs, Inr result)
      \<longrightarrow> fromResponse api reqs result)
   \<and> (applyPatternAndMaterial api renderImg patternImg materialImg surface dims = (reqs, Inr result)
      \<longrightarrow> fromResponse api reqs result)
   \<and> (applyPatternOnly api renderImg patternImg surface dims = (reqs, Inr result)
      \<longrightarrow> fromResponse api reqs result)
   \<and> (applyMaterialOnly api renderImg materialImg surface = (reqs, Inr result)
      \<longrightarrow> fromResponse api reqs result)
   \<and> (extractAndProcessImage api sourceImg extraction dims = (reqs, Inr result)
      \<longrightarrow> fromResponse api reqs result)"
  by (simp add: applyPatternAndMaterial_def applyPatternOnly_def applyMaterialOnly_def
        extractAndProcessImage_def generateSurfaceDesign_returns)

text \<open>
  A call that returns, and its result.
\<close>

theorem returned_imageUrl_is_data_url_witness:
  "generateSurfaceDesign (replyWith (responseOf [imagePart ''image/png'' ''AAAA''])) ''p'' [pngFile]
     = ([generateRequest ''p'' [InlineData (Some ''iVBORw0KGgo='') ''image/png'']],
        Inr \<lparr>imageUrl = Some ''data:image/png;base64,AAAA''\<rparr>)
   \<and> fromResponse (replyWith (responseOf [imagePart ''image/png'' ''AAAA'']))
        [generateRequest ''p'' [InlineData (Some ''iVBORw0KGgo='') ''image/png'']]
        \<lparr>imageUrl = Some ''data:image/png;base64,AAAA''\<rparr>"
proof -
  have b: "responseBlobs (responseOf [imagePart ''image/png'' ''AAAA''])
             = [\<lparr>data = ''AAAA'', mimeType = ''image/png''\<rparr>]"
    by (simp add: responseBlobs_def responseOf_def responseParts_def imagePart_def)
  have r: "generateSurfaceDesign (replyWith (responseOf [imagePart ''image/png'' ''AAAA''])) ''p'' [pngFile]
     = ([generateRequest ''p'' [InlineData (Some ''iVBORw0KGgo='') ''image/png'']],
        Inr \<lparr>imageUrl = Some ''data:image/png;base64,AAAA''\<rparr>)"
    by (simp add: generateSurfaceDesign_def fileToBase64_def pngFile_def index_def replyWith_def
          generateUnpack_blobs b dataUrl_def)
  show ?thesis
    using returned_imageUrl_is_data_url [of
        "replyWith (responseOf [imagePart ''image/png'' ''AAAA''])" "''p''" "[pngFile]"
        "[generateRequest ''p'' [InlineData (Some ''iVBORw0KGgo='') ''image/png'']]"
        "\<lparr>imageUrl = Some ''data:image/png;base64,AAAA''\<rparr>"] r
    by simp
qed

subsection \<open>Pattern only, on the flooring\<close>

lemma sublist_mid: "sublist x b \<Longrightarrow> sublist x (a @ l @ b @ rest)"
proof -
  assume "sublist x b"
  then obtain ps ss where "b = ps @ x @ ss" by (auto simp: sublist_def)
  then have "a @ l @ b @ rest = (a @ l @ ps) @ x @ (ss @ rest)" by simp
  then show ?thesis unfolding sublist_def by blast
qed

lemma sublist_pre: "sublist x (a @ x @ rest)"
  unfolding sublist_def by blast

lemma lower_flooring: "toLowerCase (surfaceTypeString Flooring) = ''flooring''"
  by (simp add: toLowerCase_def lowerChar_def)

lemma sublist_patternOnly:
  "sublist ''Apply ONLY the visual pattern'' (patternOnlyPrompt surface dims)"
  unfolding patternOnlyPrompt_def
  by (rule sublist_mid) code_simp

lemma sublist_flooring:
  "sublist ''flooring'' (patternOnlyPrompt Flooring dims)"
  unfolding patternOnlyPrompt_def lower_flooring
  by (rule sublist_pre)

lemma patternOnlyPrompt_flooring:
  "patternOnlyPrompt Flooring None = ''\<newline>        You are an AI assistant for Bovali, a luxury interior design brand.\<newline>        Your task is to modify the primary \"Render Shot\" image.\<newline>        Identify the flooring in the \"Render Shot\".\<newline>        Apply ONLY the visual pattern from the \"Pattern Image\" to the flooring.\<newline>        \<newline>        The original material, texture, lighting, and colors of the surface in the \"Render Shot\" should be preserved as much as possible.\<newline>        The final result must be a single, photorealistic image that seamlessly integrates the new pattern onto the specified surface in the original render shot, maintaining realistic lighting, shadows, and perspective.\<newline>        Do not add any text or other artifacts to the image. Output only the modified image.\<newline>        The images are provided after this prompt.\<newline>    ''"
  by (simp add: patternOnlyPrompt_def tileDimensionInstruction_def truthy_def toLowerCase_def lowerChar_def)

text \<open>
  Claim C6. With a readable render shot and pattern image, surface \<open>Flooring\<close> and
  no dimensions, \<open>applyPatternOnly\<close> sends one request: the two images, in that order,
  and one prompt, which contains \<open>Apply ONLY the visual pattern\<close> and \<open>flooring\<close>.
  On a response with one image-bearing part it returns that image.
\<close>

theorem pattern_only_flooring_example:
  assumes "readAsDataURL renderImg = Inr renderUrl"
    and "readAsDataURL patternImg = Inr patternUrl"
    and "api \<lparr>model = ''gemini-2.5-flash-image-preview'',
               contents = [InlineData (index (split CHR '','' renderUrl) 1) (fileType renderImg),
                           InlineData (index (split CHR '','' patternUrl) 1) (fileType patternImg),
                           Text (patternOnlyPrompt Flooring None)],
               responseModalities = [IMAGE]\<rparr> = Inr response"
    and "responseBlobs response = [b]"
  shows "applyPatternOnly api renderImg patternImg Flooring None =
           ([\<lparr>model = ''gemini-2.5-flash-image-preview'',
              contents = [InlineData (index (split CHR '','' renderUrl) 1) (fileType renderImg),
                          InlineData (index (split CHR '','' patternUrl) 1) (fileType patternImg),
                          Text (patternOnlyPrompt Flooring None)],
              responseModalities = [IMAGE]\<rparr>],
            Inr \<lparr>imageUrl = Some (''data:'' @ mimeType b @ '';base64,'' @ data b)\<rparr>)
         \<and> sublist ''Apply ONLY the visual pattern'' (patternOnlyPrompt Flooring None)
         \<and> sublist ''flooring'' (patternOnlyPrompt Flooring None)"
proof -
  have "applyPatternOnly api renderImg patternImg Flooring None =
           ([\<lparr>model = ''gemini-2.5-flash-image-preview'',
              contents = [InlineData (index (split CHR '','' renderUrl) 1) (fileType renderImg),
                          InlineData (index (split CHR '','' patternUrl) 1) (fileType patternImg),
                          Text (patternOnlyPrompt Flooring None)],
              responseModalities = [IMAGE]\<rparr>],
            Inr \<lparr>imageUrl = Some (''data:'' @ mimeType b @ '';base64,'' @ data b)\<rparr>)"
    using assms
    by (simp add: applyPatternOnly_def generateSurfaceDesign_def fileToBase64_def
          generateRequest_def generateUnpack_blobs dataUrl_def)
  then show ?thesis
    by (simp add: sublist_patternOnly sublist_flooring)
qed

text \<open>
  The example with a PNG render shot and a JPEG pattern.
\<close>

theorem pattern_only_flooring_example_witness:
  "applyPatternOnly (replyWith (responseOf [imagePart ''image/png'' ''AAAA''])) pngFile jpegFile
       Flooring None =
     ([\<lparr>model = ''gemini-2.5-flash-image-preview'',
        contents = [InlineData (Some ''iVBORw0KGgo='') ''image/png'',
                    InlineData (Some ''/9j/4AAQ'') ''image/jpeg'',
                    Text (patternOnlyPrompt Flooring None)],
        responseModalities = [IMAGE]\<rparr>],
      Inr \<lparr>imageUrl = Some ''data:image/png;base64,AAAA''\<rparr>)
   \<and> sublist ''Apply ONLY the visual pattern'' (patternOnlyPrompt Flooring None)
   \<and> sublist ''flooring'' (patternOnlyPrompt Flooring None)"
proof -
  have b: "responseBlobs (responseOf [imagePart ''image/png'' ''AAAA''])
             = [\<lparr>data = ''AAAA'', mimeType = ''image/png''\<rparr>]"
    by (simp add: responseBlobs_def responseOf_def responseParts_def imagePart_def)
  have r1: "readAsDataURL pngFile = Inr ''data:image/png;base64,iVBORw0KGgo=''"
    by (simp add: pngFile_def)
  have r2: "readAsDataURL jpegFile = Inr ''data:image/jpeg;base64,/9j/4AAQ''"
    by (simp add: jpegFile_def)
  have t1: "fileType pngFile = ''image/png''" by (simp add: pngFile_def)
  have t2: "fileType jpegFile = ''image/jpeg''" by (simp add: jpegFile_def)
  show ?thesis
    using pattern_only_flooring_example [OF r1 r2 _ b,
        of "replyWith (responseOf [imagePart ''image/png'' ''AAAA''])"]
    by (simp add: replyWith_def t1 t2 index_def)
qed

section \<open>The view controller\<close>

lemma mount_eq:
  "mount = initialApp\<lparr>chatRef := Some (createBovaliChat 0), chatsCreated := 1\<rparr>"
  by (simp add: mount_def modeEffect_def tabEffect_def chatInitEffect_def initialApp_def)

lemma generatorCall_missing:
  "missingRequired s \<Longrightarrow>
   generatorCall env s = ([], Inl (Error (validationMessage (generationMode s))))"
  unfolding missingRequired_def generatorCall_def
  by (cases "generationMode s") (auto split: option.splits)

lemma slot_resetOutputs: "slot setter (resetOutputs s) = slot setter s"
  by (cases setter) (simp_all add: resetOutputs_def)

lemma slot_setSlot: "slot setter (setSlot setter v s) = v"
  by (cases setter) simp_all

lemma revoked_setSlot: "revoked (setSlot setter v s) = revoked s"
  by (cases setter) simp_all

lemma withRenderShot_slot:
  "renderShot withRenderShot = \<lparr>imgFile = Some pngFile, previewUrl = Some ''blob:preview-1''\<rparr>"
  by (simp add: withRenderShot_def handleImageSelect_def resetOutputs_def sampleEnv_def objectUrl_def)

lemma withRenderShot_revoked: "revoked withRenderShot = []"
  by (simp add: withRenderShot_def handleImageSelect_def resetOutputs_def revokePrevious_def
        mount_eq initialApp_def noImage_def)

lemma addMessage_frame:
  "sent (addMessage i t who s) = sent s" "chatTurns (addMessage i t who s) = chatTurns s"
  "chatRef (addMessage i t who s) = chatRef s" "chatsCreated (addMessage i t who s) = chatsCreated s"
  by (simp_all add: addMessage_def)

lemma chatEditCatch_frame:
  "sent (chatEditCatch env e s) = sent s" "chatTurns (chatEditCatch env e s) = chatTurns s"
  "chatRef (chatEditCatch env e s) = chatRef s"
  "chatsCreated (chatEditCatch env e s) = chatsCreated s"
  by (simp_all add: chatEditCatch_def addMessage_frame)

lemma chatEdit_frame:
  "chatTurns (chatEdit env url msg s) = chatTurns s" "chatRef (chatEdit env url msg s) = chatRef s"
  "chatsCreated (chatEdit env url msg s) = chatsCreated s"
  by (auto simp: chatEdit_def Let_def chatEditCatch_frame addMessage_frame
           split: sum.splits prod.splits)


lemma chatTurn_frame:
  "sent (chatTurn env msg s) = sent s" "chatRef (chatTurn env msg s) = chatRef s"
  "chatsCreated (chatTurn env msg s) = chatsCreated s"
  by (auto simp: chatTurn_def Let_def addMessage_frame split: option.splits sum.splits)

lemma chatTurn_turns:
  "chatTurns (chatTurn env msg s) =
     (case chatRef s of None \<Rightarrow> chatTurns s | Some chat \<Rightarrow> chatTurns s @ [(chat, msg)])"
  by (auto simp: chatTurn_def Let_def addMessage_frame split: option.splits sum.splits)

lemma step_frame:
  "chatRef (step env ev s) = chatRef s" "chatsCreated (step env ev s) = chatsCreated s"
proof -
  have "chatRef (step env ev s) = chatRef s \<and> chatsCreated (step env ev s) = chatsCreated s"
  proof (cases ev)
    case (SelectImage setter f)
    then show ?thesis
      by (cases setter)
         (simp_all add: handleImageSelect_def resetOutputs_def revokePrevious_def
            split: option.splits)
  next
    case (RemoveImage setter)
    then show ?thesis
      by (cases setter)
         (simp_all add: handleImageRemove_def resetOutputs_def revokePrevious_def
            split: option.splits)
  next
    case ClickGenerate
    then show ?thesis
      by (simp add: handleGeneratorSubmit_def Let_def split: prod.splits sum.splits)
  next
    case ClickProcess
    then show ?thesis
      by (simp add: handleProcessImage_def Let_def split: prod.splits sum.splits option.splits)
  next
    case (SendChat msg)
    then show ?thesis
      by (simp add: handleSendMessage_def Let_def chatEdit_frame chatTurn_frame addMessage_frame)
  qed (simp_all add: setActiveTab_def tabEffect_def setGenerationMode_def modeEffect_def)
  then show "chatRef (step env ev s) = chatRef s" "chatsCreated (step env ev s) = chatsCreated s"
    by simp_all
qed

lemma step_chatTurns:
  "chatTurns (step env ev s) = chatTurns s
   \<or> (\<exists>chat msg. chatRef s = Some chat \<and> chatTurns (step env ev s) = chatTurns s @ [(chat, msg)])"
proof (cases ev)
  case (SelectImage setter f)
  then show ?thesis
    by (cases setter)
       (simp_all add: handleImageSelect_def resetOutputs_def revokePrevious_def
          split: option.splits)
next
  case (RemoveImage setter)
  then show ?thesis
    by (cases setter)
       (simp_all add: handleImageRemove_def resetOutputs_def revokePrevious_def
          split: option.splits)
next
  case ClickGenerate
  then show ?thesis
    by (simp add: handleGeneratorSubmit_def Let_def split: prod.splits sum.splits)
next
  case ClickProcess
  then show ?thesis
    by (simp add: handleProcessImage_def Let_def split: prod.splits sum.splits option.splits)
next
  case (SendChat msg)
  then show ?thesis
    by (cases "chatRef s")
       (simp_all add: handleSendMessage_def Let_def chatEdit_frame chatTurn_turns addMessage_frame)
qed (simp_all add: setActiveTab_def tabEffect_def setGenerationMode_def modeEffect_def)

lemma generated_facts:
  "outputImage generated = Some ''data:image/png;base64,AAAA''"
  "activeTab generated = Generator"
  "chatRef generated = Some (createBovaliChat 0)"
  "chatTurns generated = []"
  "sent generated =
     [generateRequest (patternAndMaterialPrompt Flooring None)
        [InlineData (Some ''iVBORw0KGgo='') ''image/png'',
         InlineData (Some ''/9j/4AAQ'') ''image/jpeg'',
         InlineData (Some ''/9j/4AAQ'') ''image/jpeg'']]"
  by (simp_all add: generated_def handleImageSelect_def resetOutputs_def revokePrevious_def
        mount_eq initialApp_def noImage_def handleGeneratorSubmit_def generatorCall_def
        dimensionsOf_def applyPatternAndMaterial_def generateSurfaceDesign_def fileToBase64_def
        pngFile_def jpegFile_def index_def sampleEnv_def replyWith_def generateUnpack_def
        responseParts_def responseOf_def imagePart_def dataUrl_def truthy_def objectUrl_def)

subsection \<open>What every reachable state satisfies\<close>

lemma oneSession_step: "oneSession s \<Longrightarrow> oneSession (step env ev s)"
  using step_chatTurns [of env ev s]
  by (auto simp: oneSession_def step_frame)

lemma oneSession_run: "oneSession s \<Longrightarrow> oneSession (run evs s)"
proof (induction evs arbitrary: s)
  case Nil
  then show ?case by simp
next
  case (Cons a evs)
  then show ?case by (cases a) (simp add: oneSession_step)
qed

lemma oneSession_mount: "oneSession mount"
  by (simp add: oneSession_def mount_eq initialApp_def)

subsection \<open>Submitting without the required images\<close>

text \<open>
  Claim C3. When a slot required by the generation mode is empty, the generator's submit
  sends no request, sets the mode's validation message and leaves no output image. When
  the source image is missing, the extractor's submit sends no request, sets its
  validation message and returns at once: it produces no image and leaves the processed
  image cell as it was.
\<close>

theorem missing_image_fails_validation:
  "(missingRequired s \<longrightarrow>
      sent (handleGeneratorSubmit env s) = sent s
      \<and> error (handleGeneratorSubmit env s) = Some (validationMessage (generationMode s))
      \<and> outputImage (handleGeneratorSubmit env s) = None)
   \<and> (imgFile (sourceImage s) = None \<longrightarrow>
      sent (handleProcessImage env s) = sent s
      \<and> processingError (handleProcessImage env s) = Some ''Please upload an image to process.''
      \<and> processedImage (handleProcessImage env s) = processedImage s)"
  by (simp add: handleGeneratorSubmit_def generatorCall_missing handleProcessImage_def)

text \<open>
  The generator's submit in each of the three modes with only the render shot selected,
  and the extractor's submit with no source image.
\<close>

theorem missing_image_fails_validation_witness:
  "missingRequired withRenderShot
   \<and> sent (handleGeneratorSubmit sampleEnv withRenderShot) = []
   \<and> error (handleGeneratorSubmit sampleEnv withRenderShot)
       = Some ''Please upload all three images for this mode.''
   \<and> outputImage (handleGeneratorSubmit sampleEnv withRenderShot) = None
   \<and> missingRequired renderOnlyPatternMode
   \<and> sent (handleGeneratorSubmit sampleEnv renderOnlyPatternMode) = []
   \<and> error (handleGeneratorSubmit sampleEnv renderOnlyPatternMode)
       = Some ''Please upload a Render Shot and a Pattern Image for this mode.''
   \<and> missingRequired renderOnlyMaterialMode
   \<and> sent (handleGeneratorSubmit sampleEnv renderOnlyMaterialMode) = []
   \<and> error (handleGeneratorSubmit sampleEnv renderOnlyMaterialMode)
       = Some ''Please upload a Render Shot and a Material Image for this mode.''
   \<and> imgFile (sourceImage withRenderShot) = None
   \<and> sent (handleProcessImage sampleEnv withRenderShot) = []
   \<and> processingError (handleProcessImage sampleEnv withRenderShot)
       = Some ''Please upload an image to process.''
   \<and> processedImage (handleProcessImage sampleEnv withRenderShot) = None"
proof -
  have a: "missingRequired withRenderShot" "generationMode withRenderShot = PatternAndMaterial"
          "sent withRenderShot = []" "imgFile (sourceImage withRenderShot) = None"
          "processedImage withRenderShot = None"
    by (simp_all add: missingRequired_def withRenderShot_def handleImageSelect_def resetOutputs_def
          revokePrevious_def mount_eq initialApp_def noImage_def)
  have b: "missingRequired renderOnlyPatternMode" "generationMode renderOnlyPatternMode = PatternOnly"
          "sent renderOnlyPatternMode = []"
    by (simp_all add: missingRequired_def renderOnlyPatternMode_def handleImageSelect_def
          resetOutputs_def revokePrevious_def setGenerationMode_def modeEffect_def mount_eq
          initialApp_def noImage_def)
  have c: "missingRequired renderOnlyMaterialMode"
          "generationMode renderOnlyMaterialMode = MaterialOnly" "sent renderOnlyMaterialMode = []"
    by (simp_all add: missingRequired_def renderOnlyMaterialMode_def handleImageSelect_def
          resetOutputs_def revokePrevious_def setGenerationMode_def modeEffect_def mount_eq
          initialApp_def noImage_def)
  show ?thesis
    using missing_image_fails_validation [of withRenderShot sampleEnv]
          missing_image_fails_validation [of renderOnlyPatternMode sampleEnv]
          missing_image_fails_validation [of renderOnlyMaterialMode sampleEnv]
          a b c
    by simp
qed

subsection \<open>Switching the tab or the generation mode\<close>

lemma revoked_effects:
  "revoked (setGenerationMode m s) = revoked s" "revoked (setActiveTab t s) = revoked s"
  by (simp_all add: setGenerationMode_def modeEffect_def setActiveTab_def tabEffect_def)

lemma mode_switch_resets:
  "generationMode s \<noteq> m \<Longrightarrow>
   renderShot (setGenerationMode m s) = noImage \<and> pattern (setGenerationMode m s) = noImage
   \<and> material (setGenerationMode m s) = noImage \<and> outputImage (setGenerationMode m s) = None
   \<and> error (setGenerationMode m s) = None"
  by (simp add: setGenerationMode_def modeEffect_def)

lemma tab_switch_resets:
  "activeTab s = Generator \<Longrightarrow>
   renderShot (setActiveTab Extractor s) = noImage \<and> pattern (setActiveTab Extractor s) = noImage
   \<and> material (setActiveTab Extractor s) = noImage \<and> outputImage (setActiveTab Extractor s) = None
   \<and> error (setActiveTab Extractor s) = None"
  "activeTab s = Extractor \<Longrightarrow>
   sourceImage (setActiveTab Generator s) = noImage
   \<and> processedImage (setActiveTab Generator s) = None
   \<and> processingError (setActiveTab Generator s) = None"
  by (simp_all add: setActiveTab_def tabEffect_def)

text \<open>
  Claim C4, at a state where it fails. A render shot has been selected, so its slot holds
  a preview locator. Switching the generation mode, or the tab, empties the slot, and the
  locator has not been passed to \<open>URL.revokeObjectURL\<close>: the two effects assign the empty
  slot directly, where \<open>handleImageSelect\<close> and \<open>handleImageRemove\<close> revoke first.
\<close>

theorem switch_leaves_preview_unreleased:
  "previewUrl (renderShot withRenderShot) = Some ''blob:preview-1''
   \<and> renderShot (setGenerationMode PatternOnly withRenderShot) = noImage
   \<and> revoked (setGenerationMode PatternOnly withRenderShot) = []
   \<and> renderShot (setActiveTab Extractor withRenderShot) = noImage
   \<and> revoked (setActiveTab Extractor withRenderShot) = []"
proof -
  have g: "generationMode withRenderShot = PatternAndMaterial" "activeTab withRenderShot = Generator"
    by (simp_all add: withRenderShot_def handleImageSelect_def resetOutputs_def revokePrevious_def
          mount_eq initialApp_def noImage_def)
  show ?thesis
    using g by (simp add: withRenderShot_slot revoked_effects withRenderShot_revoked
          mode_switch_resets tab_switch_resets)
qed

subsection \<open>Where a chat message goes\<close>

text \<open>
  Whatever the handlers store as output image is a data URL built from an image part of a
  reply: each handler keeps this, from whatever state it starts.
\<close>

lemma editParts_image:
  "fst (editParts ps (None, tx)) = None \<or> (\<exists>b. fst (editParts ps (None, tx)) = Some (dataUrl b))"
  unfolding editParts_fst by (cases "imageBlobs ps = []") auto

lemma editScan_image:
  assumes "editScan response = Inr (im, tx)"
  shows "im = None \<or> (\<exists>b. im = Some (dataUrl b))"
proof -
  have "im = None \<or> (\<exists>ps. im = fst (editParts ps (None, None)))"
    using assms unfolding editScan_def
    by (auto split: option.splits list.splits simp: prod_eq_iff)
  then show ?thesis
    using editParts_image by metis
qed

lemma editImageWithPrompt_image:
  assumes "editImageWithPrompt api base64Image mime instruction = (reqs, Inr res)"
  shows "\<exists>b. imageUrl res = Some (dataUrl b)"
proof -
  from assms obtain response where u: "editUnpack response = Inr res"
    unfolding editImageWithPrompt_def editCatch_def
    by (auto split: sum.splits if_splits simp: Let_def)
  then obtain im tx where sc: "editScan response = Inr (im, tx)" and t: "truthy im"
    and r: "imageUrl res = im"
    unfolding editUnpack_def by (auto split: sum.splits prod.splits if_splits)
  from t have "im \<noteq> None" by (cases im) (simp_all add: truthy_def)
  with editScan_image [OF sc] r show ?thesis by auto
qed

lemma generateSurfaceDesign_image:
  "generateSurfaceDesign api prompt images = (reqs, Inr result) \<Longrightarrow>
   \<exists>b. imageUrl result = Some (dataUrl b)"
  unfolding generateSurfaceDesign_def
  by (auto split: sum.splits list.splits simp: generateUnpack_blobs Let_def)

lemma generatorCall_image:
  "generatorCall env s = (reqs, Inr result) \<Longrightarrow> \<exists>b. imageUrl result = Some (dataUrl b)"
  unfolding generatorCall_def applyPatternAndMaterial_def applyPatternOnly_def applyMaterialOnly_def
  by (auto split: GenerationMode.splits option.splits simp: Let_def
           dest: generateSurfaceDesign_image)

lemma chatEdit_outputImage:
  assumes "outputImage s = None \<or> (\<exists>b. outputImage s = Some (dataUrl b))"
  shows "outputImage (chatEdit env url msg s) = None
         \<or> (\<exists>b. outputImage (chatEdit env url msg s) = Some (dataUrl b))"
  using assms
  by (auto simp: chatEdit_def chatEditCatch_def addMessage_def Let_def
           split: sum.splits prod.splits dest: editImageWithPrompt_image)

lemma outputImage_step:
  assumes "outputImage s = None \<or> (\<exists>b. outputImage s = Some (dataUrl b))"
  shows "outputImage (step env ev s) = None \<or> (\<exists>b. outputImage (step env ev s) = Some (dataUrl b))"
proof (cases ev)
  case (SelectImage setter f)
  then show ?thesis by (simp add: handleImageSelect_def resetOutputs_def)
next
  case (RemoveImage setter)
  then show ?thesis by (simp add: handleImageRemove_def resetOutputs_def)
next
  case ClickGenerate
  then show ?thesis
    by (auto simp: handleGeneratorSubmit_def Let_def split: prod.splits sum.splits
             dest: generatorCall_image)
next
  case ClickProcess
  then show ?thesis
    using assms
    by (auto simp: handleProcessImage_def Let_def split: prod.splits sum.splits option.splits)
next
  case (SendChat msg)
  have "outputImage (chatTurn env msg t) = outputImage t" for t
    by (auto simp: chatTurn_def addMessage_def Let_def split: option.splits sum.splits)
  moreover have "outputImage ((addMessage i m w s)\<lparr>isBotTyping := True, error := None\<rparr>)
                   = outputImage s" for i m w
    by (simp add: addMessage_def)
  ultimately show ?thesis
    using SendChat assms
          chatEdit_outputImage [of "(addMessage (dateNow env) msg User s)\<lparr>isBotTyping := True,
            error := None\<rparr>" env "template (outputImage s)" msg]
    by (auto simp: handleSendMessage_def Let_def)
next
  case (ClickTab t)
  then show ?thesis
    using assms by (auto simp: setActiveTab_def tabEffect_def)
next
  case (ClickMode m)
  then show ?thesis
    using assms by (auto simp: setGenerationMode_def modeEffect_def)
qed (use assms in simp_all)

lemma outputImage_run:
  "outputImage s = None \<or> (\<exists>b. outputImage s = Some (dataUrl b)) \<Longrightarrow>
   outputImage (run evs s) = None \<or> (\<exists>b. outputImage (run evs s) = Some (dataUrl b))"
proof (induction evs arbitrary: s)
  case Nil
  then show ?case by simp
next
  case (Cons a evs)
  show ?case
  proof (cases a)
    case (Pair env ev)
    have "outputImage (run evs (step env ev s)) = None
          \<or> (\<exists>b. outputImage (run evs (step env ev s)) = Some (dataUrl b))"
      using Cons.prems by (intro Cons.IH outputImage_step)
    then show ?thesis using Pair by simp
  qed
qed

lemma outputImage_reachable:
  "outputImage (run evs mount) = None \<or> (\<exists>b. outputImage (run evs mount) = Some (dataUrl b))"
  by (rule outputImage_run) (simp add: mount_eq initialApp_def)











subsection \<open>Removing and selecting an image\<close>

text \<open>
  Claim C7. Removing an image whose slot holds a preview locator empties the slot, passes
  the locator to \<open>URL.revokeObjectURL\<close>, and clears the output image and the error.
\<close>

theorem remove_clears_and_releases:
  assumes "previewUrl (slot setter s) = Some u" and "u \<noteq> []"
  shows "slot setter (handleImageRemove setter s) = noImage
         \<and> revoked (handleImageRemove setter s) = revoked s @ [u]
         \<and> outputImage (handleImageRemove setter s) = None
         \<and> error (handleImageRemove setter s) = None
         \<and> processedImage (handleImageRemove setter s) = None
         \<and> processingError (handleImageRemove setter s) = None"
proof -
  have "revoked (handleImageRemove setter s) = revoked s @ [u]"
    using assms
    by (simp add: handleImageRemove_def resetOutputs_def revoked_setSlot revokePrevious_def)
  moreover have "slot setter (handleImageRemove setter s) = noImage"
    by (simp add: handleImageRemove_def slot_resetOutputs slot_setSlot)
  ultimately show ?thesis
    by (simp add: handleImageRemove_def resetOutputs_def)
qed

text \<open>
  Removing the render shot that was just selected.
\<close>

theorem remove_clears_and_releases_witness:
  "previewUrl (slot setRenderShot withRenderShot) = Some ''blob:preview-1''
   \<and> renderShot (handleImageRemove setRenderShot withRenderShot) = noImage
   \<and> revoked (handleImageRemove setRenderShot withRenderShot) = [''blob:preview-1'']
   \<and> outputImage (handleImageRemove setRenderShot withRenderShot) = None
   \<and> error (handleImageRemove setRenderShot withRenderShot) = None"
proof -
  have p: "previewUrl (slot setRenderShot withRenderShot) = Some ''blob:preview-1''"
    by (simp add: withRenderShot_slot)
  show ?thesis
    using remove_clears_and_releases [OF p] p by (simp add: withRenderShot_revoked)
qed

text \<open>
  Claim C9. Selecting or removing an image, through any of the four setters, clears the
  output image and the error of the generator and the processed image and the error of
  the extractor.
\<close>

theorem select_remove_reset_both_panels:
  "outputImage (handleImageSelect env f setter s) = None
   \<and> error (handleImageSelect env f setter s) = None
   \<and> processedImage (handleImageSelect env f setter s) = None
   \<and> processingError (handleImageSelect env f setter s) = None
   \<and> outputImage (handleImageRemove setter s) = None
   \<and> error (handleImageRemove setter s) = None
   \<and> processedImage (handleImageRemove setter s) = None
   \<and> processingError (handleImageRemove setter s) = None"
  by (simp add: handleImageSelect_def handleImageRemove_def resetOutputs_def)

text \<open>
  Removing or selecting the extractor's source image while the generator shows an output
  image.
\<close>

theorem select_remove_reset_both_panels_witness:
  "outputImage generated = Some ''data:image/png;base64,AAAA''
   \<and> outputImage (handleImageRemove setSourceImage generated) = None
   \<and> error (handleImageRemove setSourceImage generated) = None
   \<and> outputImage (handleImageSelect sampleEnv pngFile setSourceImage generated) = None"
  using select_remove_reset_both_panels [of sampleEnv pngFile setSourceImage generated]
        generated_facts(1)
  by simp

subsection \<open>The chat session\<close>

text \<open>
  Claim C8, as the code has it. The first render creates the chat session. Whatever the
  user does afterwards, \<open>createBovaliChat\<close> has run exactly once, \<open>chatRef\<close> holds that
  session, every turn sent through a session went through it, and running the creating
  effect again changes nothing.
\<close>

theorem one_chat_session_from_mount:
  "chatsCreated (run evs mount) = 1
   \<and> chatRef (run evs mount) = Some (createBovaliChat 0)
   \<and> list_all (\<lambda>turn. fst turn = createBovaliChat 0) (chatTurns (run evs mount))
   \<and> chatInitEffect (run evs mount) = run evs mount"
proof -
  have "oneSession (run evs mount)"
    using oneSession_mount by (rule oneSession_run)
  then show ?thesis
    by (simp add: oneSession_def chatInitEffect_def)
qed

text \<open>
  Two chat turns after the first render.
\<close>

theorem one_chat_session_from_mount_witness:
  "chatsCreated (run [(sampleEnv, SendChat ''hello''), (sampleEnv, SendChat ''thanks'')] mount) = 1
   \<and> chatTurns (run [(sampleEnv, SendChat ''hello''), (sampleEnv, SendChat ''thanks'')] mount)
       = [(createBovaliChat 0, ''hello''), (createBovaliChat 0, ''thanks'')]"
proof -
  have "chatTurns (run [(sampleEnv, SendChat ''hello''), (sampleEnv, SendChat ''thanks'')] mount)
       = [(createBovaliChat 0, ''hello''), (createBovaliChat 0, ''thanks'')]"
    by (simp add: handleSendMessage_def Let_def chatTurn_turns chatTurn_frame addMessage_frame
          truthy_def mount_eq initialApp_def addMessage_def chatTurn_def sampleEnv_def chatReply_def)
  then show ?thesis
    using one_chat_session_from_mount
            [of "[(sampleEnv, SendChat ''hello''), (sampleEnv, SendChat ''thanks'')]"]
    by simp
qed

text \<open>
  Claim C8 as written fails on when the session is created: not on first use, but by the
  effect of the first render, before any message or request has been sent.
\<close>

theorem session_created_before_first_use_counterexample:
  "chatRef mount = Some (createBovaliChat 0) \<and> chatsCreated mount = 1
   \<and> chatTurns mount = [] \<and> sent mount = []"
  by (simp add: mount_eq initialApp_def)

end
